theory Spec2Isabelle
  imports Main "HOL-Library.AList" "HOL-Library.Sublist" "HOL-Library.Char_ord"
    "HOL-Library.List_Lexorder"
begin

section \<open>Cell values and rows\<close>

text \<open>
  A value the program handles. The program never calculates with a number, it only prints
  it, tests it and puts it in a \<open>Set\<close>; a number is therefore represented by the text
  \<open>String\<close> prints for it, which determines the number up to the sign of zero (the two
  zeros print alike and are the same member of a \<open>Set\<close>). A \<open>Date\<close> object is its identity
  and the text it prints. \<open>Builtin k\<close> is the member \<open>k\<close> that every plain object inherits from
  \<open>Object.prototype\<close> (for \<open>__proto__\<close>, the prototype itself). \<open>Undefined\<close> is what reading a
  missing property gives.
\<close>

datatype jsval =
  Undefined | Null | Str string | Num string | Bool bool | DateObj nat string | Builtin string

section \<open>Plain objects\<close>

text \<open>
  The mapping, the literal values and the source rows are plain objects used as
  dictionaries: an association list of own properties in insertion order, and a
  prototype, which is \<open>Object.prototype\<close> unless it was set to \<open>null\<close>. Reading \<open>obj[k]\<close> gives
  the own property if there is one, else the inherited member if \<open>k\<close> names one, else
  \<open>undefined\<close>.
\<close>

definition object_prototype_keys :: "string list" where
  "object_prototype_keys =
     [''constructor'', ''__defineGetter__'', ''__defineSetter__'', ''hasOwnProperty'',
      ''__lookupGetter__'', ''__lookupSetter__'', ''isPrototypeOf'', ''propertyIsEnumerable'',
      ''toString'', ''valueOf'', ''__proto__'', ''toLocaleString'']"

datatype 'v property = Missing | Own 'v | Inherited string

definition prop_get :: "bool \<Rightarrow> (string \<times> 'v) list \<Rightarrow> string \<Rightarrow> 'v property" where
  "prop_get has_prototype own k =
     (case map_of own k of
        Some v \<Rightarrow> Own v
      | None \<Rightarrow> if has_prototype \<and> k \<in> set object_prototype_keys then Inherited k else Missing)"

text \<open>
  A source row is an object literal filled by the spreadsheet reader, keyed by source
  header; \<open>row[k]\<close> is \<open>row_get\<close>.
\<close>

type_synonym row = "(string \<times> jsval) list"

definition row_get :: "row \<Rightarrow> string \<Rightarrow> jsval" where
  "row_get r k =
     (case prop_get True r k of Missing \<Rightarrow> Undefined | Own v \<Rightarrow> v | Inherited m \<Rightarrow> Builtin m)"

text \<open>
  The text of an inherited member: a built-in function prints its name around
  \<open>[native code]\<close> (the spacing is the one V8 and JavaScriptCore use), the prototype object
  prints as any plain object.
\<close>

definition builtin_text :: "string \<Rightarrow> string" where
  "builtin_text k =
     (if k = ''__proto__'' then ''[object Object]''
      else ''function '' @ (if k = ''constructor'' then ''Object'' else k) @ ''() { [native code] }'')"

text \<open>The global \<open>String(v)\<close>.\<close>

fun String_of :: "jsval \<Rightarrow> string" where
  "String_of Undefined = ''undefined''"
| "String_of Null = ''null''"
| "String_of (Str s) = s"
| "String_of (Num s) = s"
| "String_of (Bool b) = (if b then ''true'' else ''false'')"
| "String_of (DateObj i s) = s"
| "String_of (Builtin k) = builtin_text k"

text \<open>Truthiness of a value, as \<open>h && ...\<close> and \<open>if (v)\<close> test it.\<close>

fun truthy :: "jsval \<Rightarrow> bool" where
  "truthy Undefined = False"
| "truthy Null = False"
| "truthy (Str s) = (s \<noteq> [])"
| "truthy (Num s) = (s \<noteq> ''0'' \<and> s \<noteq> ''NaN'')"
| "truthy (Bool b) = b"
| "truthy (DateObj i s) = True"
| "truthy (Builtin k) = True"

text \<open>\<open>v ?? d\<close>.\<close>

fun nullish_or :: "jsval \<Rightarrow> jsval \<Rightarrow> jsval" where
  "nullish_or Undefined d = d"
| "nullish_or Null d = d"
| "nullish_or v d = v"

text \<open>
  \<open>s.trim()\<close>. Characters are eight-bit code units here, so the white space of the
  language is tab, line feed, vertical tab, form feed, carriage return, space and the
  no-break space.
\<close>

definition is_space :: "char \<Rightarrow> bool" where
  "is_space c = (of_char c \<in> {9, 10, 11, 12, 13, 32, 160 :: nat})"

definition trim :: "string \<Rightarrow> string" where
  "trim s = rev (dropWhile is_space (rev (dropWhile is_space s)))"

section \<open>Application state\<close>

text \<open>
  \<open>Mapping\<close> is an object from target header to a source header or \<open>null\<close> (\<open>None\<close>). The
  state holds its own properties in \<open>mapping\<close> and whether its prototype is
  \<open>Object.prototype\<close> in \<open>mapping_has_prototype\<close>: the loop that builds a fresh mapping can set the
  prototype to \<open>null\<close>. The object of literal values is always an object literal or a
  copy of one, so its prototype is \<open>Object.prototype\<close>.
\<close>

type_synonym mapping_obj = "(string \<times> string option) list"
type_synonym static_obj = "(string \<times> string) list"

record filter_rule =
  filter_id :: nat
  filter_column :: string
  filter_value :: "string list"

datatype output_format = xlsx | csv

text \<open>
  The blob under the key \<open>excelMapperConfig\<close>, represented by what \<open>JSON.parse\<close> makes
  of it: \<open>Unparsable\<close> when parsing or reading its fields throws.
\<close>

record saved_config =
  cfg_targetHeaders :: "string list option"
  cfg_mapping :: "mapping_obj option"
  cfg_staticValues :: "static_obj option"

datatype stored = Unparsable | Parsed saved_config

record app_state =
  targetHeaders :: "string list"
  sourceHeaders :: "string list"
  sourceData :: "row list"
  mapping :: mapping_obj
  mapping_has_prototype :: bool
  targetFile :: "string option"
  sourceFile :: "string option"
  draggedItem :: "string option"
  isGenerating :: bool
  outputFormat :: output_format
  staticValues :: static_obj
  editingStaticField :: "string option"
  editingStaticValue :: string
  filters :: "filter_rule list"
  localStorage :: "stored option"

text \<open>What a handler does besides changing the state.\<close>

datatype notice =
    TargetEmptyOrMalformed  \<comment> \<open>the alert of \<open>handleFile\<close>\<close>
  | NothingAssigned         \<comment> \<open>the alert of \<open>generateFile\<close>\<close>

datatype effect =
    Quiet
  | ConsoleError
  | Alert notice
  | TypeError
  | WriteFile string "jsval list list"

section \<open>Saving the configuration\<close>

text \<open>
  The effect that runs after every render in which headers, mapping or literals changed.
  \<open>JSON.stringify\<close> writes the own properties of the two objects.
\<close>

definition save_effect :: "app_state \<Rightarrow> app_state" where
  "save_effect st =
     (if length (targetHeaders st) > 0
      then st\<lparr>localStorage := Some (Parsed \<lparr>cfg_targetHeaders = Some (targetHeaders st),
                                            cfg_mapping = Some (mapping st),
                                            cfg_staticValues = Some (staticValues st)\<rparr>)\<rparr>
      else st)"

section \<open>Value domain of a column\<close>

text \<open>\<open>new Set(xs)\<close>: insertion order, a value already present is not added again.\<close>

definition set_add :: "'a \<Rightarrow> 'a list \<Rightarrow> 'a list" where
  "set_add x acc = (if x \<in> set acc then acc else acc @ [x])"

definition new_Set :: "'a list \<Rightarrow> 'a list" where
  "new_Set xs = fold set_add xs []"

text \<open>
  \<open>Array.prototype.sort\<close> with a comparator is stable; for a consistent comparator every
  stable sort gives the list that insertion gives.
\<close>

fun insert_sorted :: "('a \<Rightarrow> 'a \<Rightarrow> int) \<Rightarrow> 'a \<Rightarrow> 'a list \<Rightarrow> 'a list" where
  "insert_sorted cmp x [] = [x]"
| "insert_sorted cmp x (y # ys) =
     (if cmp x y \<le> 0 then x # y # ys else y # insert_sorted cmp x ys)"

definition js_sort :: "('a \<Rightarrow> 'a \<Rightarrow> int) \<Rightarrow> 'a list \<Rightarrow> 'a list" where
  "js_sort cmp xs = foldr (insert_sorted cmp) xs []"

text \<open>
  \<open>localeCompare\<close> is the host's collation and is a parameter \<open>lc\<close> of the model. Where a
  concrete comparator is needed, comparison by code units stands in for it.
\<close>

definition codeunit_compare :: "string \<Rightarrow> string \<Rightarrow> int" where
  "codeunit_compare a b = (if a < b then - 1 else if a = b then 0 else 1)"

definition getUniqueValuesForColumn ::
    "(string \<Rightarrow> string \<Rightarrow> int) \<Rightarrow> app_state \<Rightarrow> string \<Rightarrow> jsval list" where
  "getUniqueValuesForColumn lc st columnName =
     (if columnName = [] \<or> length (sourceData st) = 0 then []
      else
        let vals = new_Set
              (filter (\<lambda>val. val \<noteq> Null \<and> val \<noteq> Undefined \<and> val \<noteq> Str [])
                 (map (\<lambda>r. row_get r columnName) (sourceData st)))
        in js_sort (\<lambda>a b. lc (String_of a) (String_of b)) vals)"

section \<open>Loading files\<close>

text \<open>
  \<open>row.filter(h => h && h.trim() !== '')\<close> on the first row of the sheet. A truthy cell that
  is not a string has no \<open>trim\<close>, and the call throws: the result is \<open>None\<close>.
\<close>

fun header_filter :: "jsval list \<Rightarrow> string list option" where
  "header_filter [] = Some []"
| "header_filter (h # hs) =
     (if \<not> truthy h then header_filter hs
      else (case h of
              Str s \<Rightarrow> map_option (\<lambda>r. if trim s \<noteq> [] then s # r else r) (header_filter hs)
            | _ \<Rightarrow> None))"

text \<open>
  \<open>newMapping[h] = null\<close>. The only inherited accessor is \<open>__proto__\<close>: while the object has
  its prototype and no own property of that name, the assignment sets the prototype to
  \<open>null\<close> and adds no property. Every other assignment sets an own property.
\<close>

definition assign_null :: "string \<Rightarrow> mapping_obj \<times> bool \<Rightarrow> mapping_obj \<times> bool" where
  "assign_null h m =
     (case m of (own, has_prototype) \<Rightarrow>
        if h = ''__proto__'' \<and> has_prototype \<and> map_of own h = None then (own, False)
        else (AList.update h None own, has_prototype))"

text \<open>\<open>headers.forEach(h => newMapping[h] = null)\<close> from \<open>{}\<close>.\<close>

definition reset_mapping :: "string list \<Rightarrow> mapping_obj \<times> bool" where
  "reset_mapping headers = fold assign_null headers ([], True)"

text \<open>
  Target upload: \<open>json\<close> is the sheet as an array of arrays. \<open>JSON.parse\<close> gives objects with
  \<open>Object.prototype\<close>.
\<close>

definition handleFile_target :: "string \<Rightarrow> jsval list list \<Rightarrow> app_state \<Rightarrow> app_state \<times> effect" where
  "handleFile_target file json st =
     (case json of
        [] \<Rightarrow> (st, Alert TargetEmptyOrMalformed)
      | first # _ \<Rightarrow>
          (case header_filter first of
             None \<Rightarrow> (st, TypeError)
           | Some headers \<Rightarrow>
               let st1 = st\<lparr>targetHeaders := headers, targetFile := Some file\<rparr>;
                   fresh = st1\<lparr>mapping := fst (reset_mapping headers),
                                mapping_has_prototype := snd (reset_mapping headers),
                                staticValues := []\<rparr>
               in (case localStorage st of
                     None \<Rightarrow> (fresh, Quiet)
                   | Some Unparsable \<Rightarrow> (fresh, ConsoleError)
                   | Some (Parsed savedConfig) \<Rightarrow>
                       if cfg_targetHeaders savedConfig = Some headers
                       then (st1\<lparr>mapping := (case cfg_mapping savedConfig of
                                                Some m \<Rightarrow> m | None \<Rightarrow> []),
                                  mapping_has_prototype := True,
                                  staticValues := (case cfg_staticValues savedConfig of
                                                Some s \<Rightarrow> s | None \<Rightarrow> [])\<rparr>, Quiet)
                       else (fresh, Quiet))))"

text \<open>
  Source upload: \<open>json\<close> is the sheet as an array of arrays, \<open>objs\<close> the same sheet as row
  objects. Taking the first row of an empty sheet gives \<open>undefined\<close>, whose \<open>filter\<close> throws.
\<close>

definition handleFile_source ::
    "string \<Rightarrow> jsval list list \<Rightarrow> row list \<Rightarrow> app_state \<Rightarrow> app_state \<times> effect" where
  "handleFile_source file json objs st =
     (case json of
        [] \<Rightarrow> (st, TypeError)
      | first # _ \<Rightarrow>
          (case header_filter first of
             None \<Rightarrow> (st, TypeError)
           | Some headers \<Rightarrow>
               (st\<lparr>sourceHeaders := headers, sourceData := objs,
                    sourceFile := Some file, filters := []\<rparr>, Quiet)))"

section \<open>Mapping and literal values\<close>

text \<open>
  \<open>{...prev, [k]: v}\<close> is a new object literal: it has \<open>Object.prototype\<close>, the own properties
  of \<open>prev\<close>, and \<open>k\<close> as an own property (a computed key is never the prototype setter).
  \<open>delete\<close> removes an own property.
\<close>

definition clearStaticValue :: "string \<Rightarrow> app_state \<Rightarrow> app_state" where
  "clearStaticValue header st = st\<lparr>staticValues := AList.delete header (staticValues st)\<rparr>"

definition handleDrop :: "string \<Rightarrow> app_state \<Rightarrow> app_state" where
  "handleDrop targetHeader st =
     (let st1 =
        (case draggedItem st of
           None \<Rightarrow> st
         | Some d \<Rightarrow>
             if d \<noteq> [] \<and> Some d \<notin> set (map snd (mapping st))
             then clearStaticValue targetHeader
                    (st\<lparr>mapping := AList.update targetHeader (Some d) (mapping st),
                        mapping_has_prototype := True\<rparr>)
             else st)
      in st1\<lparr>draggedItem := None\<rparr>)"

definition handleStaticValueSave :: "app_state \<Rightarrow> app_state" where
  "handleStaticValueSave st =
     (let st1 =
        (case editingStaticField st of
           None \<Rightarrow> st
         | Some field \<Rightarrow>
             let trimmedValue = trim (editingStaticValue st) in
             if trimmedValue \<noteq> []
             then st\<lparr>staticValues := AList.update field trimmedValue (staticValues st),
                      mapping := AList.update field None (mapping st),
                      mapping_has_prototype := True\<rparr>
             else clearStaticValue field st)
      in st1\<lparr>editingStaticField := None, editingStaticValue := []\<rparr>)"

section \<open>Export\<close>

definition activeFilters :: "filter_rule list \<Rightarrow> filter_rule list" where
  "activeFilters fs = filter (\<lambda>f. filter_column f \<noteq> [] \<and> length (filter_value f) > 0) fs"

definition row_matches :: "filter_rule list \<Rightarrow> row \<Rightarrow> bool" where
  "row_matches afs r =
     list_all (\<lambda>f. String_of (row_get r (filter_column f)) \<in> set (filter_value f)) afs"

definition dataToProcess :: "app_state \<Rightarrow> row list" where
  "dataToProcess st =
     (let afs = activeFilters (filters st)
      in if length afs > 0 then filter (row_matches afs) (sourceData st) else sourceData st)"

text \<open>\<open>mapping[k]\<close> and \<open>staticValues[k]\<close>.\<close>

definition mapping_get :: "app_state \<Rightarrow> string \<Rightarrow> string option property" where
  "mapping_get st k = prop_get (mapping_has_prototype st) (mapping st) k"

definition static_get :: "app_state \<Rightarrow> string \<Rightarrow> string property" where
  "static_get st k = prop_get True (staticValues st) k"

text \<open>
  One cell of the export. An inherited member read as \<open>staticValue\<close> is not \<open>undefined\<close> and
  is exported as it is; read as \<open>sourceHeader\<close> it is truthy and is turned into a property
  key by its text.
\<close>

definition cell_for :: "app_state \<Rightarrow> row \<Rightarrow> string \<Rightarrow> jsval" where
  "cell_for st r targetHeader =
     (let sourceHeader = mapping_get st targetHeader;
          staticValue = static_get st targetHeader;
          cellValue =
            (case staticValue of
               Own v \<Rightarrow> Str v
             | Inherited m \<Rightarrow> Builtin m
             | Missing \<Rightarrow>
                 (case sourceHeader of
                    Own (Some s) \<Rightarrow> if s \<noteq> [] then row_get r s else Str []
                  | Own None \<Rightarrow> Str []
                  | Inherited m \<Rightarrow> row_get r (String_of (Builtin m))
                  | Missing \<Rightarrow> Str []))
      in nullish_or cellValue (Str []))"

definition outputData :: "app_state \<Rightarrow> jsval list list" where
  "outputData st =
     map Str (targetHeaders st) #
     map (\<lambda>r. map (cell_for st r) (targetHeaders st)) (dataToProcess st)"

definition generateFile :: "app_state \<Rightarrow> app_state \<times> effect" where
  "generateFile st =
     (if list_all (\<lambda>v. v = None) (map snd (mapping st)) \<and> length (map fst (staticValues st)) = 0
      then (st, Alert NothingAssigned)
      else (st\<lparr>isGenerating := False\<rparr>,
            WriteFile (case outputFormat st of xlsx \<Rightarrow> ''mapped_data.xlsx''
                                             | csv \<Rightarrow> ''mapped_data.csv'')
                      (outputData st)))"

section \<open>Drag, predicates on a target column, and a fresh session\<close>

definition handleDragStart :: "string \<Rightarrow> app_state \<Rightarrow> app_state" where
  "handleDragStart header st = st\<lparr>draggedItem := Some header\<rparr>"

text \<open>The column shows a source mapping (\<open>mapping[header]\<close> is truthy).\<close>

definition source_active :: "app_state \<Rightarrow> string \<Rightarrow> bool" where
  "source_active st header =
     (case mapping_get st header of
        Own (Some s) \<Rightarrow> s \<noteq> []
      | Own None \<Rightarrow> False
      | Inherited m \<Rightarrow> True
      | Missing \<Rightarrow> False)"

text \<open>The column has a literal value (\<open>staticValues[header] !== undefined\<close>).\<close>

definition literal_active :: "app_state \<Rightarrow> string \<Rightarrow> bool" where
  "literal_active st header = (static_get st header \<noteq> Missing)"

text \<open>The state of \<open>App\<close> at its first render, with nothing stored yet.\<close>

definition initial_state :: app_state where
  "initial_state =
     \<lparr>targetHeaders = [], sourceHeaders = [], sourceData = [], mapping = [],
      mapping_has_prototype = True,
      targetFile = None, sourceFile = None, draggedItem = None, isGenerating = False,
      outputFormat = xlsx, staticValues = [], editingStaticField = None,
      editingStaticValue = [], filters = [], localStorage = None\<rparr>"

section \<open>The filter predicate in the words of the specification\<close>

text \<open>
  The specification's \<open>matches(row)\<close>: for every active rule the row's value at the rule's
  column, coerced to its string representation, is a member of the rule's values, where an
  absent cell coerces to the empty string.
\<close>

definition spec_cellToComparable :: "row \<Rightarrow> string \<Rightarrow> string" where
  "spec_cellToComparable r column =
     (case map_of r column of
        None \<Rightarrow> []
      | Some v \<Rightarrow> if v = Undefined then [] else String_of v)"

definition spec_matches :: "filter_rule list \<Rightarrow> row \<Rightarrow> bool" where
  "spec_matches rules r =
     list_all (\<lambda>f. spec_cellToComparable r (filter_column f) \<in> set (filter_value f))
       (activeFilters rules)"

section \<open>Sessions used as examples\<close>

text \<open>Target \<open>Name, Email\<close>; \<open>Name\<close> mapped from \<open>Full Name\<close>, literal \<open>Email = n/a\<close>.\<close>

definition ana_state :: app_state where
  "ana_state = initial_state
     \<lparr>targetHeaders := [''Name'', ''Email''],
      sourceHeaders := [''Full Name'', ''Mail''],
      sourceData := [[(''Full Name'', Str ''Ana''), (''Mail'', Str ''ana@x.sk'')]],
      mapping := [(''Name'', Some ''Full Name''), (''Email'', None)],
      staticValues := [(''Email'', ''n/a'')]\<rparr>"

text \<open>
  A source whose first row has the text \<open>undefined\<close> in column \<open>Country\<close> and whose second
  row has no cell there, filtered on \<open>Country\<close> with that text selected.
\<close>

definition country_rows :: "row list" where
  "country_rows = [[(''Country'', Str ''undefined''), (''Name'', Str ''Eva'')],
                   [(''Name'', Str ''Ana'')]]"

definition country_state :: app_state where
  "country_state = initial_state
     \<lparr>sourceHeaders := [''Country'', ''Name''],
      sourceData := country_rows,
      filters := [\<lparr>filter_id = 1, filter_column = ''Country'', filter_value = [''undefined'']\<rparr>]\<rparr>"

text \<open>An active rule for \<open>Country\<close> beside an inactive one.\<close>

definition sk_filters :: "filter_rule list" where
  "sk_filters = [\<lparr>filter_id = 1, filter_column = ''Country'', filter_value = [''SK'']\<rparr>,
                 \<lparr>filter_id = 2, filter_column = [], filter_value = []\<rparr>]"

text \<open>A column holding the number 1 in one row and the text \<open>1\<close> in the next.\<close>

definition mixed_state :: app_state where
  "mixed_state = initial_state
     \<lparr>sourceHeaders := [''Code''],
      sourceData := [[(''Code'', Num ''1'')], [(''Code'', Str ''1'')]]\<rparr>"

text \<open>A target sheet whose first row holds one cell of blanks.\<close>

definition blank_header_sheet :: "jsval list list" where
  "blank_header_sheet = [[Str '' ''], [Str ''x'']]"

text \<open>
  A new session in which a target with the columns \<open>Name\<close> and \<open>constructor\<close> and a source
  with the column \<open>Full Name\<close> and one row have been uploaded.
\<close>

definition constructor_state :: app_state where
  "constructor_state =
     fst (handleFile_source ''s.xlsx'' [[Str ''Full Name''], [Str ''Ana'']]
            [[(''Full Name'', Str ''Ana'')]]
            (fst (handleFile_target ''t.xlsx'' [[Str ''Name'', Str ''constructor'']]
                    initial_state)))"


section \<open>Facts about the containers\<close>

lemma map_of_value_listed: "map_of al k = Some v \<Longrightarrow> v \<in> set (map snd al)"
  by (induction al) (auto split: if_splits)








section \<open>Filtering rows with an absent cell\<close>

text \<open>
  C1. The claim: for an active rule, a row whose cell in the rule's column is absent is
  compared as the empty string, so it is selected iff the empty string is among the rule's
  values. The export compares \<open>String(row[column])\<close>, which is the text \<open>undefined\<close> for an
  absent cell. In \<open>country_state\<close> the second row has no \<open>Country\<close> cell, the only active
  rule selects the text \<open>undefined\<close> (a value the first row offers) and not the empty
  string, and the second row is selected all the same.
\<close>

theorem C1_absent_cell_compared_as_undefined:
  "row_get (country_rows ! 1) ''Country'' = Undefined \<and>
   [] \<notin> set (filter_value (hd (activeFilters (filters country_state)))) \<and>
   dataToProcess country_state = country_rows"
  by (simp add: dataToProcess_def country_state_def country_rows_def initial_state_def
      activeFilters_def row_matches_def row_get_def prop_get_def
      object_prototype_keys_def)

section \<open>Saved configuration\<close>



section \<open>Source mapping against literal value\<close>

text \<open>
  C3. The claim: after a source assignment and a literal assignment to a target column, in
  either order, exactly one of the two is active. In \<open>constructor_state\<close> the source header
  \<open>Full Name\<close> is dropped on the target column \<open>constructor\<close>. The drop is accepted: the
  mapping of the column is set and no own literal remains. The column's literal is still
  read as present, because \<open>staticValues[header]\<close> finds the member the object inherits, so
  both tests hold at once, and the export writes the inherited member, not the source cell.
\<close>

theorem C3_constructor_column_both_active:
  "map_of (mapping (handleDrop ''constructor'' (handleDragStart ''Full Name'' constructor_state)))
     ''constructor'' = Some (Some ''Full Name'') \<and>
   staticValues (handleDrop ''constructor'' (handleDragStart ''Full Name'' constructor_state)) = [] \<and>
   source_active (handleDrop ''constructor'' (handleDragStart ''Full Name'' constructor_state))
     ''constructor'' \<and>
   literal_active (handleDrop ''constructor'' (handleDragStart ''Full Name'' constructor_state))
     ''constructor'' \<and>
   cell_for (handleDrop ''constructor'' (handleDragStart ''Full Name'' constructor_state))
     [(''Full Name'', Str ''Ana'')] ''constructor'' = Builtin ''constructor''"
  by (simp add: constructor_state_def handleFile_source_def handleFile_target_def
      initial_state_def trim_def is_space_def reset_mapping_def assign_null_def
      handleDrop_def handleDragStart_def clearStaticValue_def source_active_def
      literal_active_def mapping_get_def static_get_def prop_get_def object_prototype_keys_def
      cell_for_def)

text \<open>
  C4. If source header \<open>s\<close> is the mapping of some target column \<open>a\<close>, dragging \<open>s\<close> onto
  any column \<open>b\<close> changes nothing: the state after the drop is the state before the drag
  with the drag marker cleared, so the mappings of \<open>a\<close> and \<open>b\<close>, the literal values and
  every other field are as before, and when no drag was under way before, the state is
  the same state.
\<close>

theorem C4_duplicate_source_rejected:
  "map_of (mapping st) a = Some (Some s) \<Longrightarrow>
   handleDrop b (handleDragStart s st) = st\<lparr>draggedItem := None\<rparr> \<and>
   mapping (handleDrop b (handleDragStart s st)) = mapping st \<and>
   staticValues (handleDrop b (handleDragStart s st)) = staticValues st \<and>
   map_of (mapping (handleDrop b (handleDragStart s st))) a = Some (Some s) \<and>
   map_of (mapping (handleDrop b (handleDragStart s st))) b = map_of (mapping st) b \<and>
   (draggedItem st = None \<longrightarrow> handleDrop b (handleDragStart s st) = st)"
proof -
  assume "map_of (mapping st) a = Some (Some s)"
  then have "Some s \<in> set (map snd (mapping st))"
    by (rule map_of_value_listed)
  then have "handleDrop b (handleDragStart s st) = st\<lparr>draggedItem := None\<rparr>"
    by (simp add: handleDrop_def handleDragStart_def)
  then show ?thesis
    using \<open>map_of (mapping st) a = Some (Some s)\<close> by simp
qed

theorem C4_duplicate_source_rejected_witness:
  "map_of (mapping ana_state) ''Name'' = Some (Some ''Full Name'') \<and>
   handleDrop ''Email'' (handleDragStart ''Full Name'' ana_state) = ana_state \<and>
   map_of (mapping (handleDrop ''Email'' (handleDragStart ''Full Name'' ana_state))) ''Email''
     = Some None"
proof -
  have h: "map_of (mapping ana_state) ''Name'' = Some (Some ''Full Name'')"
    by (simp add: ana_state_def initial_state_def)
  have e: "map_of (mapping ana_state) ''Email'' = Some None"
    by (simp add: ana_state_def initial_state_def)
  have d: "ana_state\<lparr>draggedItem := None\<rparr> = ana_state"
    by (simp add: ana_state_def initial_state_def)
  show ?thesis
    using C4_duplicate_source_rejected [OF h, of "''Email''"] h e d by simp
qed

section \<open>The exported table\<close>

text \<open>
  C5. The claim: every cell of a data line is the column's literal value if one is set,
  else the row's cell under the mapped source header, else the empty string. In
  \<open>constructor_state\<close> with \<open>Name\<close> mapped from \<open>Full Name\<close>, the column \<open>constructor\<close> has
  no own literal and its mapping is \<open>null\<close>, and its exported cell is the member inherited
  from \<open>Object.prototype\<close>, not the empty string.
\<close>

theorem C5_constructor_column_exports_builtin:
  "map_of (staticValues (handleDrop ''Name'' (handleDragStart ''Full Name'' constructor_state)))
     ''constructor'' = None \<and>
   map_of (mapping (handleDrop ''Name'' (handleDragStart ''Full Name'' constructor_state)))
     ''constructor'' = Some None \<and>
   snd (generateFile (handleDrop ''Name'' (handleDragStart ''Full Name'' constructor_state))) =
     WriteFile ''mapped_data.xlsx''
       [[Str ''Name'', Str ''constructor''], [Str ''Ana'', Builtin ''constructor'']]"
  by (simp add: constructor_state_def handleFile_source_def handleFile_target_def
      initial_state_def trim_def is_space_def reset_mapping_def assign_null_def
      handleDrop_def handleDragStart_def clearStaticValue_def generateFile_def outputData_def
      dataToProcess_def activeFilters_def cell_for_def mapping_get_def static_get_def
      prop_get_def object_prototype_keys_def row_get_def)

text \<open>
  C6. If every value of the mapping is \<open>null\<close> and there are no literal values,
  \<open>generateFile\<close> alerts, writes no table whatever the source rows and filters are, and
  returns the state as it was.
\<close>

theorem C6_export_blocked:
  "list_all (\<lambda>v. v = None) (map snd (mapping st)) \<Longrightarrow> staticValues st = [] \<Longrightarrow>
   generateFile st = (st, Alert NothingAssigned) \<and>
   (\<forall>name tbl. snd (generateFile st) \<noteq> WriteFile name tbl) \<and>
   (\<forall>rows fs. generateFile (st\<lparr>sourceData := rows, filters := fs\<rparr>) =
       (st\<lparr>sourceData := rows, filters := fs\<rparr>, Alert NothingAssigned))"
  by (simp add: generateFile_def)

theorem C6_export_blocked_witness:
  "list_all (\<lambda>v. v = None) (map snd (mapping (ana_state\<lparr>mapping := fst (reset_mapping [''Name'', ''Email'']), staticValues := []\<rparr>))) \<and>
   staticValues (ana_state\<lparr>mapping := fst (reset_mapping [''Name'', ''Email'']), staticValues := []\<rparr>) = [] \<and>
   generateFile (ana_state\<lparr>mapping := fst (reset_mapping [''Name'', ''Email'']), staticValues := []\<rparr>) =
     (ana_state\<lparr>mapping := fst (reset_mapping [''Name'', ''Email'']), staticValues := []\<rparr>, Alert NothingAssigned)"
proof -
  let ?st = "ana_state\<lparr>mapping := fst (reset_mapping [''Name'', ''Email'']), staticValues := []\<rparr>"
  have a: "list_all (\<lambda>v. v = None) (map snd (mapping ?st))"
    by (simp add: reset_mapping_def assign_null_def)
  have b: "staticValues ?st = []" by simp
  show ?thesis using C6_export_blocked [OF a b] a b by (simp only: simp_thms)
qed

section \<open>Row selection\<close>

text \<open>
  C7. The claim: with active rules the rows selected are \<open>rows.filter(matches)\<close>. In
  \<open>country_state\<close> one rule is active, and the export selects both rows, while the
  specification's \<open>matches\<close>, for which an absent cell is the empty string, holds of the
  first row only.
\<close>

theorem C7_selection_differs_from_spec_matches:
  "activeFilters (filters country_state) \<noteq> [] \<and>
   dataToProcess country_state =
     [[(''Country'', Str ''undefined''), (''Name'', Str ''Eva'')], [(''Name'', Str ''Ana'')]] \<and>
   filter (spec_matches (filters country_state)) (sourceData country_state) =
     [[(''Country'', Str ''undefined''), (''Name'', Str ''Eva'')]]"
  by (simp add: dataToProcess_def country_state_def country_rows_def initial_state_def
      activeFilters_def row_matches_def row_get_def prop_get_def object_prototype_keys_def
      spec_matches_def spec_cellToComparable_def)

section \<open>Value domain\<close>

text \<open>
  C8. The claim: the value domain of a column has no duplicate strings. For a column
  holding the number 1 and the text \<open>1\<close> the \<open>Set\<close> keeps both values, and the strings shown
  for them are the same string twice.
\<close>

theorem C8_mixed_column_duplicate_strings:
  "getUniqueValuesForColumn codeunit_compare mixed_state ''Code'' = [Num ''1'', Str ''1''] \<and>
   map String_of (getUniqueValuesForColumn codeunit_compare mixed_state ''Code'') = [''1'', ''1''] \<and>
   \<not> distinct (map String_of (getUniqueValuesForColumn codeunit_compare mixed_state ''Code''))"
  by (simp add: getUniqueValuesForColumn_def mixed_state_def initial_state_def new_Set_def
      set_add_def js_sort_def row_get_def prop_get_def object_prototype_keys_def
      codeunit_compare_def)

section \<open>Uploads\<close>

text \<open>
  C9. The claim: a target upload that is empty or has no non-blank cell in its first row is
  reported and changes no state. An empty sheet is reported by an alert and leaves the state
  alone. A sheet whose first row holds only a cell of blanks gives the empty header list:
  no alert is raised, and target headers, mapping and literal values are replaced by empty
  ones.
\<close>

theorem C9_blank_header_row_wipes_state:
  "header_filter (hd blank_header_sheet) = Some [] \<and>
   handleFile_target ''t.xlsx'' blank_header_sheet (save_effect ana_state) =
     ((save_effect ana_state)\<lparr>targetHeaders := [], targetFile := Some ''t.xlsx'',
                               mapping := [], staticValues := []\<rparr>, Quiet) \<and>
   mapping (save_effect ana_state) = [(''Name'', Some ''Full Name''), (''Email'', None)] \<and>
   staticValues (save_effect ana_state) = [(''Email'', ''n/a'')] \<and>
   handleFile_target ''t.xlsx'' [] (save_effect ana_state) =
     (save_effect ana_state, Alert TargetEmptyOrMalformed)"
  by (simp add: handleFile_target_def blank_header_sheet_def trim_def is_space_def
      save_effect_def ana_state_def initial_state_def reset_mapping_def)

text \<open>
  C10. A source upload never changes the target headers, the mapping or the literal
  values. When the first row of the sheet gives a header list, the upload replaces source
  headers, source rows and file name and empties the filter list, and nothing else.
\<close>

theorem C10_source_upload_frame:
  "targetHeaders (fst (handleFile_source file json objs st)) = targetHeaders st \<and>
   mapping (fst (handleFile_source file json objs st)) = mapping st \<and>
   staticValues (fst (handleFile_source file json objs st)) = staticValues st \<and>
   (\<forall>first rest headers. json = first # rest \<and> header_filter first = Some headers \<longrightarrow>
      handleFile_source file json objs st =
        (st\<lparr>sourceHeaders := headers, sourceData := objs,
             sourceFile := Some file, filters := []\<rparr>, Quiet))"
  by (auto simp: handleFile_source_def split: list.splits option.splits)

theorem C10_source_upload_frame_witness:
  "header_filter [Str ''Id''] = Some [''Id''] \<and>
   handleFile_source ''s.xlsx'' [[Str ''Id''], [Num ''7'']] [[(''Id'', Num ''7'')]]
       (ana_state\<lparr>filters := sk_filters\<rparr>) =
     (ana_state\<lparr>filters := sk_filters, sourceHeaders := [''Id''], sourceData := [[(''Id'', Num ''7'')]],
                 sourceFile := Some ''s.xlsx'', filters := []\<rparr>, Quiet) \<and>
   mapping (fst (handleFile_source ''s.xlsx'' [[Str ''Id''], [Num ''7'']] [[(''Id'', Num ''7'')]]
       (ana_state\<lparr>filters := sk_filters\<rparr>))) = [(''Name'', Some ''Full Name''), (''Email'', None)] \<and>
   ''Full Name'' \<notin> set [''Id'']"
proof -
  have h: "header_filter [Str ''Id''] = Some [''Id'']"
    by (simp add: trim_def is_space_def)
  have m: "mapping (ana_state\<lparr>filters := sk_filters\<rparr>) = [(''Name'', Some ''Full Name''), (''Email'', None)]"
    by (simp add: ana_state_def initial_state_def)
  have n: "''Full Name'' \<notin> set [''Id'']" by simp
  have f: "mapping (fst (handleFile_source ''s.xlsx'' [[Str ''Id''], [Num ''7'']] [[(''Id'', Num ''7'')]]
       (ana_state\<lparr>filters := sk_filters\<rparr>))) = mapping (ana_state\<lparr>filters := sk_filters\<rparr>)"
    using C10_source_upload_frame [of "''s.xlsx''" "[[Str ''Id''], [Num ''7'']]" "[[(''Id'', Num ''7'')]]"
        "ana_state\<lparr>filters := sk_filters\<rparr>"] by blast
  have g: "handleFile_source ''s.xlsx'' [[Str ''Id''], [Num ''7'']] [[(''Id'', Num ''7'')]]
       (ana_state\<lparr>filters := sk_filters\<rparr>) =
     (ana_state\<lparr>filters := sk_filters, sourceHeaders := [''Id''], sourceData := [[(''Id'', Num ''7'')]],
                 sourceFile := Some ''s.xlsx'', filters := []\<rparr>, Quiet)"
    using C10_source_upload_frame [of "''s.xlsx''" "[[Str ''Id''], [Num ''7'']]" "[[(''Id'', Num ''7'')]]"
        "ana_state\<lparr>filters := sk_filters\<rparr>"] h by blast
  show ?thesis using h m n f g by (simp only: simp_thms)
qed

end
